theory Spec2Isabelle
  imports Complex_Main
begin

section \<open>Floating-point cells\<close>

text \<open>
  The cells of a pandas column of dtype float64.  The model keeps the three special
  values the program can produce (NaN and the two infinities) and takes the finite
  values as reals: rounding is not modelled, and the two zeros of IEEE 754 are one value
  (a finite non-zero number divided by zero gives an infinity of the dividend's sign).
\<close>

datatype pyfloat = Num real | PosInf | NegInf | NaN

instantiation pyfloat :: "{plus, minus, uminus, times, divide, ord}"
begin

fun uminus_pyfloat :: "pyfloat \<Rightarrow> pyfloat" where
  "uminus_pyfloat (Num a) = Num (- a)"
| "uminus_pyfloat PosInf = NegInf"
| "uminus_pyfloat NegInf = PosInf"
| "uminus_pyfloat NaN = NaN"

fun plus_pyfloat :: "pyfloat \<Rightarrow> pyfloat \<Rightarrow> pyfloat" where
  "plus_pyfloat NaN _ = NaN"
| "plus_pyfloat _ NaN = NaN"
| "plus_pyfloat (Num a) (Num b) = Num (a + b)"
| "plus_pyfloat PosInf NegInf = NaN"
| "plus_pyfloat NegInf PosInf = NaN"
| "plus_pyfloat PosInf _ = PosInf"
| "plus_pyfloat NegInf _ = NegInf"
| "plus_pyfloat (Num a) PosInf = PosInf"
| "plus_pyfloat (Num a) NegInf = NegInf"

definition minus_pyfloat :: "pyfloat \<Rightarrow> pyfloat \<Rightarrow> pyfloat" where
  "minus_pyfloat x y = x + (- y)"

fun times_pyfloat :: "pyfloat \<Rightarrow> pyfloat \<Rightarrow> pyfloat" where
  "times_pyfloat NaN _ = NaN"
| "times_pyfloat _ NaN = NaN"
| "times_pyfloat (Num a) (Num b) = Num (a * b)"
| "times_pyfloat (Num a) PosInf = (if a = 0 then NaN else if 0 < a then PosInf else NegInf)"
| "times_pyfloat (Num a) NegInf = (if a = 0 then NaN else if 0 < a then NegInf else PosInf)"
| "times_pyfloat PosInf (Num b) = (if b = 0 then NaN else if 0 < b then PosInf else NegInf)"
| "times_pyfloat NegInf (Num b) = (if b = 0 then NaN else if 0 < b then NegInf else PosInf)"
| "times_pyfloat PosInf PosInf = PosInf"
| "times_pyfloat NegInf NegInf = PosInf"
| "times_pyfloat PosInf NegInf = NegInf"
| "times_pyfloat NegInf PosInf = NegInf"

fun divide_pyfloat :: "pyfloat \<Rightarrow> pyfloat \<Rightarrow> pyfloat" where
  "divide_pyfloat NaN _ = NaN"
| "divide_pyfloat _ NaN = NaN"
| "divide_pyfloat (Num a) (Num b) =
     (if b \<noteq> 0 then Num (a / b)
      else if a = 0 then NaN else if 0 < a then PosInf else NegInf)"
| "divide_pyfloat (Num a) PosInf = Num 0"
| "divide_pyfloat (Num a) NegInf = Num 0"
| "divide_pyfloat PosInf (Num b) = (if 0 \<le> b then PosInf else NegInf)"
| "divide_pyfloat NegInf (Num b) = (if 0 \<le> b then NegInf else PosInf)"
| "divide_pyfloat PosInf _ = NaN"
| "divide_pyfloat NegInf _ = NaN"

fun less_pyfloat :: "pyfloat \<Rightarrow> pyfloat \<Rightarrow> bool" where
  "less_pyfloat NaN _ = False"
| "less_pyfloat _ NaN = False"
| "less_pyfloat (Num a) (Num b) = (a < b)"
| "less_pyfloat NegInf NegInf = False"
| "less_pyfloat NegInf _ = True"
| "less_pyfloat _ NegInf = False"
| "less_pyfloat PosInf _ = False"
| "less_pyfloat (Num a) PosInf = True"

fun less_eq_pyfloat :: "pyfloat \<Rightarrow> pyfloat \<Rightarrow> bool" where
  "less_eq_pyfloat NaN _ = False"
| "less_eq_pyfloat _ NaN = False"
| "less_eq_pyfloat (Num a) (Num b) = (a \<le> b)"
| "less_eq_pyfloat NegInf _ = True"
| "less_eq_pyfloat _ PosInf = True"
| "less_eq_pyfloat PosInf _ = False"
| "less_eq_pyfloat (Num a) NegInf = False"

instance ..

end

instantiation pyfloat :: inverse
begin

definition inverse_pyfloat :: "pyfloat \<Rightarrow> pyfloat" where
  "inverse_pyfloat x = divide (Num 1) x"

instance ..

end

section \<open>The pandas operations the program calls\<close>

type_synonym series = "pyfloat list"

text \<open>
  \<^verbatim>\<open>Series.diff()\<close>: the first cell has no predecessor and is NaN; every other cell is
  the difference to the cell before it.
\<close>

definition diff :: "series \<Rightarrow> series" where
  "diff xs = (case xs of [] \<Rightarrow> [] | _ # rest \<Rightarrow> NaN # map2 (-) rest xs)"

text \<open>
  \<^verbatim>\<open>Series.where(cond, other)\<close>: keeps the cell where the condition holds and puts
  \<open>other\<close> everywhere else.  A comparison with NaN is false, so a NaN cell is replaced.
\<close>

definition series_where :: "bool list \<Rightarrow> series \<Rightarrow> pyfloat \<Rightarrow> series" where
  "series_where cond xs other = map2 (\<lambda>c x. if c then x else other) cond xs"

text \<open>
  \<^verbatim>\<open>Series.rolling(window=w).mean()\<close>, with pandas' default \<open>min_periods = w\<close>: the
  window of cell \<open>i\<close> is the cells \<open>i - w + 1 .. i\<close> that exist; its observations are
  the finite cells (pandas turns infinities into NaN before it aggregates); the result
  is their mean when there are at least \<open>w\<close> of them, and NaN otherwise.
\<close>

fun observations :: "series \<Rightarrow> real list" where
  "observations [] = []"
| "observations (Num x # xs) = x # observations xs"
| "observations (_ # xs) = observations xs"

definition window :: "nat \<Rightarrow> series \<Rightarrow> nat \<Rightarrow> series" where
  "window w xs i = drop (Suc i - w) (take (Suc i) xs)"

definition rolling_mean :: "nat \<Rightarrow> series \<Rightarrow> series" where
  "rolling_mean w xs =
     map (\<lambda>i. let obs = observations (window w xs i); nobs = length obs
              in if w \<le> nobs \<and> 0 < nobs then Num (sum_list obs / real nobs) else NaN)
         [0..<length xs]"

text \<open>
  \<^verbatim>\<open>Series.ewm(span=s, adjust=False).mean()\<close>, with pandas' defaults
  \<open>ignore_na = False\<close> and \<open>min_periods = 0\<close> (one observation is enough).  It is the
  loop of pandas' aggregation: \<open>weighted\<close> is the running average, \<open>old_wt\<close> the weight
  it carries, \<open>nobs\<close> the number of observations seen.  With \<open>adjust = False\<close> the new
  weight is \<open>alpha\<close> and the old weight is reset to 1 after every observation.
\<close>

fun ewm_loop :: "real \<Rightarrow> pyfloat \<Rightarrow> real \<Rightarrow> nat \<Rightarrow> series \<Rightarrow> series" where
  "ewm_loop alpha weighted old_wt nobs [] = []"
| "ewm_loop alpha weighted old_wt nobs (cur # rest) =
     (let is_observation = (cur \<noteq> NaN);
          nobs' = (if is_observation then Suc nobs else nobs);
          old_wt1 = old_wt * (1 - alpha);
          (weighted', old_wt') =
            (if weighted \<noteq> NaN then
               (if is_observation then
                  ((if weighted \<noteq> cur
                    then (Num old_wt1 * weighted + Num alpha * cur) / Num (old_wt1 + alpha)
                    else weighted), 1)
                else (weighted, old_wt1))
             else if is_observation then (cur, old_wt)
             else (weighted, old_wt))
      in (if 1 \<le> nobs' then weighted' else NaN) # ewm_loop alpha weighted' old_wt' nobs' rest)"

definition ewm_mean :: "nat \<Rightarrow> series \<Rightarrow> series" where
  "ewm_mean span' xs =
     (let com = (real span' - 1) / 2; alpha = 1 / (1 + com)
      in case xs of
           [] \<Rightarrow> []
         | x0 # rest \<Rightarrow>
             (let nobs = (if x0 \<noteq> NaN then 1 else 0)
              in (if 1 \<le> nobs then x0 else NaN) # ewm_loop alpha x0 1 nobs rest))"

section \<open>Candles\<close>

text \<open>
  A row of the frame \<^verbatim>\<open>get_coinbase_candles\<close> builds: the six columns of the
  exchange's response, the time in seconds since the epoch.  Prices and volume are
  numbers: a frame with a missing or non-numeric cell is not a value of this type.
\<close>

record candle =
  time :: real
  low :: real
  high :: real
  open' :: real
  close :: real
  volume :: real

text \<open>A row after \<^verbatim>\<open>add_indicators\<close>: the five indicator columns are appended.\<close>

record enriched = candle +
  SMA20 :: pyfloat
  EMA20 :: pyfloat
  RSI :: pyfloat
  MACD :: pyfloat
  Signal :: pyfloat

type_synonym dataframe = "candle list"

text \<open>\<^verbatim>\<open>df["close"]\<close>: a numeric column of the frame, as a series.\<close>

definition column :: "('r \<Rightarrow> real) \<Rightarrow> 'r list \<Rightarrow> series" where
  "column f df = map (\<lambda>r. Num (f r)) df"

section \<open>The indicator engine of main.py\<close>

text \<open>
  The local series of \<^verbatim>\<open>add_indicators\<close>, each as a function of the close column
  \<open>c\<close>, under the names the source gives them (lines 63 to 69 of main.py).
\<close>

definition delta :: "series \<Rightarrow> series" where
  "delta c = diff c"

definition gain :: "series \<Rightarrow> series" where
  "gain c = series_where (map (\<lambda>d. Num 0 < d) (delta c)) (delta c) (Num 0)"

definition loss :: "series \<Rightarrow> series" where
  "loss c = map uminus (series_where (map (\<lambda>d. d < Num 0) (delta c)) (delta c) (Num 0))"

definition avg_gain :: "series \<Rightarrow> series" where
  "avg_gain c = rolling_mean 14 (gain c)"

definition avg_loss :: "series \<Rightarrow> series" where
  "avg_loss c = rolling_mean 14 (loss c)"

definition rs :: "series \<Rightarrow> series" where
  "rs c = map2 (/) (avg_gain c) (avg_loss c)"

definition rsi :: "series \<Rightarrow> series" where
  "rsi c = map (\<lambda>r. Num 100 - (Num 100 / (Num 1 + r))) (rs c)"

definition short_ema :: "series \<Rightarrow> series" where
  "short_ema c = ewm_mean 12 c"

definition long_ema :: "series \<Rightarrow> series" where
  "long_ema c = ewm_mean 26 c"

definition macd :: "series \<Rightarrow> series" where
  "macd c = map2 (-) (short_ema c) (long_ema c)"

text \<open>
  \<^verbatim>\<open>add_indicators\<close> assigns five new columns to the frame and returns it.  Every
  assigned series carries the frame's own index, so the assignment is positional: row
  \<open>i\<close> receives cell \<open>i\<close> of each series.
\<close>

definition add_indicators :: "dataframe \<Rightarrow> enriched list" where
  "add_indicators df =
     (let c = column close df;
          sma20 = rolling_mean 20 c;
          ema20 = ewm_mean 20 c;
          rsi_col = rsi c;
          macd_col = macd c;
          signal = ewm_mean 9 macd_col
      in map (\<lambda>i. candle.extend (df ! i)
                   (enriched.fields (sma20 ! i) (ema20 ! i) (rsi_col ! i) (macd_col ! i)
                      (signal ! i)))
           [0..<length df])"

section \<open>The indicator engine of resistance_support.py\<close>

text \<open>
  The second copy of \<^verbatim>\<open>add_indicators\<close> (lines 64 to 81 of
  src/resistance_support.py), translated from its own text, the local series as
  local bindings.
\<close>

definition add_indicators_rs :: "dataframe \<Rightarrow> enriched list" where
  "add_indicators_rs df =
     (let c = column close df;
          sma20 = rolling_mean 20 c;
          ema20 = ewm_mean 20 c;
          delta' = diff c;
          gain' = series_where (map (\<lambda>d. Num 0 < d) delta') delta' (Num 0);
          loss' = map uminus (series_where (map (\<lambda>d. d < Num 0) delta') delta' (Num 0));
          avg_gain' = rolling_mean 14 gain';
          avg_loss' = rolling_mean 14 loss';
          rs' = map2 (/) avg_gain' avg_loss';
          rsi_col = map (\<lambda>r. Num 100 - (Num 100 / (Num 1 + r))) rs';
          short_ema' = ewm_mean 12 c;
          long_ema' = ewm_mean 26 c;
          macd_col = map2 (-) short_ema' long_ema';
          signal = ewm_mean 9 macd_col
      in map (\<lambda>i. candle.extend (df ! i)
                   (enriched.fields (sma20 ! i) (ema20 ! i) (rsi_col ! i) (macd_col ! i)
                      (signal ! i)))
           [0..<length df])"

section \<open>The recursive form of the specification\<close>

text \<open>
  The exponential moving average as the specification words it: the first value is the
  first input, and every later value is \<open>\<alpha> * x + (1 - \<alpha>) * previous\<close> with
  \<open>\<alpha> = 2 / (span + 1)\<close>.  It is the reference the program's columns are compared
  with.
\<close>

fun spec_ewm_from :: "real \<Rightarrow> real \<Rightarrow> real list \<Rightarrow> real list" where
  "spec_ewm_from a prev [] = []"
| "spec_ewm_from a prev (x # xs) = (let e = a * x + (1 - a) * prev in e # spec_ewm_from a e xs)"

definition spec_recursive_ewm :: "nat \<Rightarrow> real list \<Rightarrow> real list" where
  "spec_recursive_ewm span' xs =
     (case xs of [] \<Rightarrow> [] | x # rest \<Rightarrow> x # spec_ewm_from (2 / (real span' + 1)) x rest)"

section \<open>The world outside the program\<close>

text \<open>
  Every failure of the source is a value: the exceptions the program lets escape.
\<close>

datatype error =
  ConnectionError | JSONDecodeError | ValueError | OpenAIError | APIError | IndexError | OSError

datatype json =
  JNull | JBool bool | JNum real | JStr string | JArr "json list" | JObj "(string \<times> json) list"

text \<open>
  An HTTP response: its status code, and what \<^verbatim>\<open>response.json()\<close> reads from its
  body (\<open>None\<close> for a body that is not JSON, the empty body among them).
\<close>

record response =
  status_code :: nat
  body :: "json option"

datatype param = PInt int | PTime real

record request =
  url :: string
  params :: "(string \<times> param) list"

record message =
  role :: string
  content :: string

record chat_request =
  model :: string
  messages :: "message list"

datatype cell = Timestamp real | Float pyfloat

type_synonym row_dict = "(string \<times> cell) list"

datatype write_outcome = Written | Interrupted nat

text \<open>
  What the program reads from its environment, and how the environment answers its
  calls: the clock, the process environment, the exchange (\<^verbatim>\<open>requests.get\<close>),
  pandas' answer to a body that is not a list of six-number rows (not modelled: any
  function), the chat-completion service (\<^verbatim>\<open>client.chat.completions.create\<close>,
  which answers with the message contents of its choices), Python's \<^verbatim>\<open>str\<close> of
  a list of dictionaries (not modelled: any function), and the file system's answers
  to opening index.html for writing and to writing it (either all of the text, or an
  interruption after some characters).  The clock is read twice: for the end of the
  fetch window, and for the time printed under the analysis, already formatted.
\<close>

record world =
  now_fetch :: real
  now_render :: string
  getenv :: "string \<rightharpoonup> string"
  requests_get :: "request \<Rightarrow> error + response"
  frame_of_other :: "json \<Rightarrow> error + dataframe"
  chat_completions_create :: "string \<Rightarrow> chat_request \<Rightarrow> error + string option list"
  str_records :: "row_dict list \<Rightarrow> string"
  open_fails :: bool
  write_result :: write_outcome

section \<open>main.py: constants\<close>

definition newline :: string where
  "newline = [CHR 0x0A]"

definition PROMPT :: string where
  "PROMPT =
     ''Identify support and resistance levels for Solana based on the provided OHLCV data and technical indicators.''
     @ '' Write a short summary in this format: Solana is currently trading at $X. The daily support level is $Y and the daily resistance level is $Z.''"

definition gpt_version :: string where
  "gpt_version = ''5''"

definition symbol :: string where
  "symbol = ''SOL-USD''"

definition granularity :: int where
  "granularity = 3600"

definition limit :: int where
  "limit = 200"

definition API_KEY :: "world \<Rightarrow> string option" where
  "API_KEY w = getenv w ''OPEN_API_KEY''"

section \<open>main.py: fetching the candles\<close>

text \<open>
  \<^verbatim>\<open>response.json()\<close> raises when the body is not JSON.
\<close>

definition response_json :: "response \<Rightarrow> error + json" where
  "response_json r = (case body r of None \<Rightarrow> Inl JSONDecodeError | Some data \<Rightarrow> Inr data)"

text \<open>
  \<^verbatim>\<open>pd.DataFrame(data, columns=[...six names...])\<close> followed by
  \<^verbatim>\<open>pd.to_datetime(df["time"], unit="s")\<close>: a list of rows, each a list of six
  numbers, gives one candle per row, and the empty list gives the frame without rows.
  What pandas makes of any other value (an object, a row of another width, a cell that
  is no number) is not modelled: it is the world's \<open>frame_of_other\<close>, any function.
\<close>

fun num_of :: "json \<Rightarrow> real option" where
  "num_of (JNum x) = Some x"
| "num_of _ = None"

definition row_of :: "json \<Rightarrow> candle option" where
  "row_of j =
     (case j of
        JArr cells \<Rightarrow>
          (case those (map num_of cells) of
             Some [t, l, h, opn, c, v] \<Rightarrow>
               Some \<lparr>time = t, low = l, high = h, open' = opn, close = c, volume = v\<rparr>
           | _ \<Rightarrow> None)
      | _ \<Rightarrow> None)"

definition DataFrame :: "world \<Rightarrow> json \<Rightarrow> error + dataframe" where
  "DataFrame w data =
     (case data of
        JArr rows \<Rightarrow>
          (case those (map row_of rows) of
             Some df \<Rightarrow> Inr df
           | None \<Rightarrow> frame_of_other w data)
      | _ \<Rightarrow> frame_of_other w data)"

text \<open>
  \<^verbatim>\<open>get_coinbase_candles\<close> (lines 31 to 55): the request of lines 39 to 47, then
  the call and the parsing of its answer.  The status code of the response is never
  read.  \<^verbatim>\<open>df.sort_values("time")\<close> is a sort by the time column.
\<close>

definition candles_request :: "world \<Rightarrow> string \<Rightarrow> int \<Rightarrow> int \<Rightarrow> request" where
  "candles_request w symbol' granularity' limit' =
     (let end_t = now_fetch w;
          start = end_t - real_of_int (granularity' * limit')
      in \<lparr>url = ''https://api.exchange.coinbase.com/products/'' @ symbol' @ ''/candles'',
           params = [(''granularity'', PInt granularity'), (''start'', PTime start),
                     (''end'', PTime end_t)]\<rparr>)"

definition get_coinbase_candles :: "world \<Rightarrow> string \<Rightarrow> int \<Rightarrow> int \<Rightarrow> error + dataframe" where
  "get_coinbase_candles w symbol' granularity' limit' =
     (case requests_get w (candles_request w symbol' granularity' limit') of
        Inl e \<Rightarrow> Inl e
      | Inr resp \<Rightarrow>
          (case response_json resp of
             Inl e \<Rightarrow> Inl e
           | Inr data \<Rightarrow>
               (case DataFrame w data of
                  Inl e \<Rightarrow> Inl e
                | Inr df \<Rightarrow> Inr (sort_key time df))))"

section \<open>main.py: the summary\<close>

text \<open>\<^verbatim>\<open>df.tail(n)\<close>: the last \<open>n\<close> rows, or all of them when there are fewer.\<close>

definition tail :: "nat \<Rightarrow> 'a list \<Rightarrow> 'a list" where
  "tail n df = drop (length df - n) df"

text \<open>
  \<^verbatim>\<open>df.to_dict(orient="records")\<close>: one dictionary per row, a key per column in
  the frame's column order.
\<close>

definition to_dict :: "enriched \<Rightarrow> row_dict" where
  "to_dict r =
     [(''time'', Timestamp (time r)), (''low'', Float (Num (low r))),
      (''high'', Float (Num (high r))), (''open'', Float (Num (open' r))),
      (''close'', Float (Num (close r))), (''volume'', Float (Num (volume r))),
      (''SMA20'', Float (SMA20 r)), (''EMA20'', Float (EMA20 r)), (''RSI'', Float (RSI r)),
      (''MACD'', Float (MACD r)), (''Signal'', Float (Signal r))]"

definition to_dict_records :: "enriched list \<Rightarrow> row_dict list" where
  "to_dict_records df = map to_dict df"

text \<open>
  \<^verbatim>\<open>OpenAI(api_key=API_KEY)\<close>: without a key the client falls back to the variable
  OPENAI_API_KEY and raises when that is missing too.  The client is its key.
\<close>

definition OpenAI :: "world \<Rightarrow> string option \<Rightarrow> error + string" where
  "OpenAI w api_key =
     (case api_key of
        Some k \<Rightarrow> Inr k
      | None \<Rightarrow> (case getenv w ''OPENAI_API_KEY'' of Some k \<Rightarrow> Inr k | None \<Rightarrow> Inl OpenAIError))"

text \<open>
  \<^verbatim>\<open>analyze_with_chatgpt\<close> (lines 80 to 94).  The result comes with the list of
  the chat-completion requests the call has sent.
\<close>

definition user_label :: string where
  "user_label = newline @ newline @ ''Here is the OHLCV + indicators data:'' @ newline"

definition analyze_with_chatgpt ::
  "world \<Rightarrow> enriched list \<Rightarrow> string \<Rightarrow> (error + string option) \<times> chat_request list" where
  "analyze_with_chatgpt w df prompt =
     (case OpenAI w (API_KEY w) of
        Inl e \<Rightarrow> (Inl e, [])
      | Inr client \<Rightarrow>
          (let data_sample = to_dict_records (tail 100 df);
               req = \<lparr>model = ''gpt-'' @ gpt_version,
                      messages =
                        [\<lparr>role = ''system'', content = prompt\<rparr>,
                         \<lparr>role = ''user'', content = user_label @ str_records w data_sample\<rparr>]\<rparr>
           in case chat_completions_create w client req of
                Inl e \<Rightarrow> (Inl e, [req])
              | Inr choices \<Rightarrow>
                  (case choices of
                     [] \<Rightarrow> (Inl IndexError, [req])
                   | choice # _ \<Rightarrow> (Inr choice, [req]))))"

section \<open>main.py: the run\<close>

text \<open>Python's \<^verbatim>\<open>str\<close> of the completion text, which the service may leave out.\<close>

definition str_opt :: "string option \<Rightarrow> string" where
  "str_opt analysis = (case analysis of None \<Rightarrow> ''None'' | Some s \<Rightarrow> s)"

definition lines :: string where
  "lines = ''-------------------------------------------------------------------------''"

definition main :: "world \<Rightarrow> string \<Rightarrow> int \<Rightarrow> int \<Rightarrow> (error + string) \<times> chat_request list" where
  "main w symbol' granularity' limit' =
     (case get_coinbase_candles w symbol' granularity' limit' of
        Inl e \<Rightarrow> (Inl e, [])
      | Inr candles \<Rightarrow>
          (let candles = add_indicators candles
           in case analyze_with_chatgpt w candles PROMPT of
                (Inl e, sent) \<Rightarrow> (Inl e, sent)
              | (Inr analysis, sent) \<Rightarrow>
                  (Inr (str_opt analysis @ newline @ lines @ newline
                        @ '' End analysis at '' @ now_render w), sent)))"

text \<open>The page: the text of lines 110 to 177, the analysis in its slot.\<close>

definition page_before :: "string list" where
  \<open>page_before =
    ['''',
     ''<!DOCTYPE html>'',
     ''<html lang="en">'',
     ''  <head>'',
     ''    <meta charset="UTF-8" />'',
     ''    <title>Imran A</title>'',
     ''    <link rel="stylesheet" href="css/styles.css" />'',
     ''    <link rel="icon" href="images/myicon.ico?v=2" />'',
     ''    <link rel="preconnect" href="https://fonts.googleapis.com" />'',
     ''    <link rel="preconnect" href="https://fonts.gstatic.com" crossorigin />'',
     ''    <link'',
     ''      href="https://fonts.googleapis.com/css2?family=Source+Code+Pro&display=swap"'',
     ''      rel="stylesheet"'',
     ''    />'',
     ''  </head>'',
     '''',
     ''  <body>'',
     ''    <div>'',
     ''      <table id="topsection">'',
     ''        <tr>'',
     ''          <td>'',
     ''            <img'',
     ''              class="profilepic"'',
     ''              src="images/profilepic.png?v=2"'',
     ''              alt="profile pic Imran Aurangzeb"'',
     ''              srcset=""'',
     ''            />'',
     ''          </td>'',
     ''          <td>'',
     ''            <h1 class="nametitle">Imran A</h1>'',
     ''          </td>'',
     ''        </tr>'',
     ''      </table>'',
     ''    </div>'',
     '''',
     ''    <hr size="3" />'',
     '''',
     ''    <div>'',
     ''      <p>'',
     ''        I began programming in BASIC on the Commodore 64 at the age of twelve.'',
     ''        In my fifth decade, following a long hiatus during which I pursued a'',
     ''        career in medicine, I chose to rekindle this passion. The journey has'',
     ''        proved immensely rewarding.'',
     ''      </p>'',
     ''      <br />'',
     ''    </div>'',
     '''',
     ''    <div class="two-columns">'',
     ''      <div class="column">'',
     ''        <h2>Column One</h2>'',
     ''        <p>'']\<close>

definition page_after :: "string list" where
  \<open>page_after =
    [''        </p>'',
     ''      </div>'',
     ''      <div class="column">'',
     ''        <h2>Column Two</h2>'',
     ''        <p>'',
     ''          Suspendisse potenti. Nulla facilisi. Donec vitae eros vel sapien'',
     ''          suscipit porttitor. Phasellus at augue a mi pretium bibendum.'',
     ''          Suspendisse potenti. Nulla facilisi. Donec vitae eros vel sapien'',
     ''          suscipit porttitor. Phasellus at augue a mi pretium bibendum.'',
     ''        </p>'',
     ''      </div>'',
     ''    </div>'',
     ''  </body>'',
     ''</html>'',
     '''']\<close>

definition page :: "string \<Rightarrow> string" where
  "page analysis =
     concat (map (\<lambda>l. l @ newline) page_before) @ ''          '' @ analysis @ newline
     @ concat (map (\<lambda>l. l @ newline) page_after)"

text \<open>
  The module's top level (lines 108 to 181): run \<^verbatim>\<open>main\<close>, build the page, open
  index.html for writing and write the page.  The state is the text of index.html
  (\<open>None\<close> when the file does not exist).  Opening a file for writing empties it;
  every exception ends the run where it is raised.
\<close>

definition run :: "world \<Rightarrow> string option \<Rightarrow> (error + unit) \<times> string option" where
  "run w index_html =
     (case fst (main w symbol granularity limit) of
        Inl e \<Rightarrow> (Inl e, index_html)
      | Inr analysis \<Rightarrow>
          (let page_text = page analysis
           in if open_fails w then (Inl OSError, index_html)
              else (let opened = Some []
                    in case write_result w of
                         Interrupted k \<Rightarrow> (Inl OSError, map_option (\<lambda>f. f @ take k page_text) opened)
                       | Written \<Rightarrow> (Inr (), map_option (\<lambda>f. f @ page_text) opened))))"

section \<open>Example inputs\<close>

definition flat_candle :: "real \<Rightarrow> real \<Rightarrow> candle" where
  "flat_candle t p = \<lparr>time = t, low = p, high = p, open' = p, close = p, volume = 0\<rparr>"

definition candles_of :: "real list \<Rightarrow> dataframe" where
  "candles_of ps = map (\<lambda>i. flat_candle (real i) (ps ! i)) [0..<length ps]"

definition falling :: "real list" where
  "falling = [14, 13, 12, 11, 10, 9, 8, 7, 6, 5, 4, 3, 2, 1]"

definition rising :: "real list" where
  "rising = [1, 2, 3, 4, 5, 6, 7, 8, 9, 10, 11, 12, 13, 14]"

definition steady :: "real list" where
  "steady = [5, 5, 5, 5, 5, 5, 5, 5, 5, 5, 5, 5, 5, 5]"

text \<open>
  A world where everything answers: the exchange with one candle, under the status
  code given, the chat service with two choices, and the file system with the outcome
  given for the write.
\<close>

definition example_response :: "nat \<Rightarrow> response" where
  "example_response status =
     \<lparr>status_code = status,
      body = Some (JArr [JArr [JNum 0, JNum 1, JNum 2, JNum 1, JNum 2, JNum 10]])\<rparr>"

definition example_world :: "nat \<Rightarrow> write_outcome \<Rightarrow> world" where
  "example_world status outcome =
     \<lparr>now_fetch = 720000,
      now_render = ''2025-01-01 00:00:00'',
      getenv = [''OPEN_API_KEY'' \<mapsto> ''key''],
      requests_get = (\<lambda>_. Inr (example_response status)),
      frame_of_other = (\<lambda>_. Inl ValueError),
      chat_completions_create = (\<lambda>_ _. Inr [Some ''ok'', Some ''second'']),
      str_records = (\<lambda>_. []),
      open_fails = False,
      write_result = outcome\<rparr>"

definition example_candle :: candle where
  "example_candle = \<lparr>time = 0, low = 1, high = 2, open' = 1, close = 2, volume = 10\<rparr>"

section \<open>Properties of the pandas operations\<close>

lemma length_diff [simp]: "length (diff xs) = length xs"
  by (cases xs) (simp_all add: diff_def)

lemma diff_nth:
  "i < length xs \<Longrightarrow> diff xs ! i = (if i = 0 then NaN else xs ! i - xs ! (i - 1))"
  by (cases xs; cases i) (simp_all add: diff_def)

lemma diff_Num_nth:
  "i < length xs \<Longrightarrow>
   diff (map Num xs) ! i = (if i = 0 then NaN else Num (xs ! i - xs ! (i - 1)))"
  by (simp add: diff_nth minus_pyfloat_def)

lemma length_series_where [simp]:
  "length (series_where cond xs other) = min (length cond) (length xs)"
  by (simp add: series_where_def)

lemma length_rolling_mean [simp]: "length (rolling_mean w xs) = length xs"
  by (simp add: rolling_mean_def)

lemma length_ewm_loop [simp]: "length (ewm_loop alpha weighted old_wt nobs xs) = length xs"
  by (induction xs arbitrary: weighted old_wt nobs) (simp_all add: Let_def split: prod.splits)

lemma length_ewm_mean [simp]: "length (ewm_mean s xs) = length xs"
  by (cases xs) (simp_all add: ewm_mean_def Let_def)

lemma observations_Num [simp]: "observations (map Num xs) = xs"
  by (induction xs) simp_all

lemma window_Num: "window w (map Num xs) i = map Num (drop (Suc i - w) (take (Suc i) xs))"
  by (simp add: window_def take_map drop_map)

lemma rolling_mean_Num_nth:
  assumes "i < length xs" and "0 < w"
  shows "rolling_mean w (map Num xs) ! i =
           (if w \<le> Suc i then Num (sum_list (drop (Suc i - w) (take (Suc i) xs)) / real w)
            else NaN)"
  using assms by (auto simp add: rolling_mean_def window_Num Let_def min_def)

lemma drop_take_nth:
  "b \<le> length xs \<Longrightarrow> drop a (take b xs) = map (\<lambda>k. xs ! k) [a..<b]"
  by (rule nth_equalityI) (auto simp add: min_def split: if_splits)

lemma sum_list_window:
  "b \<le> length xs \<Longrightarrow> sum_list (drop a (take b xs)) = (\<Sum>k = a..<b. (xs ! k :: real))"
  by (simp add: drop_take_nth interv_sum_list_conv_sum_set_nat)

lemma ewm_step_Num:
  "(Num (1 - a) * Num w + Num a * Num x) / Num 1 = Num (a * x + (1 - a) * w)"
  by (simp add: algebra_simps)

lemma ewm_loop_Num:
  "ewm_loop a (Num w) 1 n (map Num xs) = map Num (spec_ewm_from a w xs)"
proof (induction xs arbitrary: w n)
  case Nil
  show ?case by simp
next
  case (Cons x xs)
  show ?case
  proof (cases "w = x")
    case True
    have "a * x + (1 - a) * x = x"
      by (simp add: algebra_simps)
    with True show ?thesis
      using Cons.IH [of x "Suc n"] by (simp add: Let_def)
  next
    case False
    then show ?thesis
      using Cons.IH [of "a * x + (1 - a) * w" "Suc n"]
      by (simp add: Let_def ewm_step_Num
          del: times_pyfloat.simps plus_pyfloat.simps divide_pyfloat.simps)
  qed
qed

lemma ewm_mean_Num: "ewm_mean s (map Num xs) = map Num (spec_recursive_ewm s xs)"
proof (cases xs)
  case Nil
  then show ?thesis by (simp add: ewm_mean_def spec_recursive_ewm_def)
next
  case (Cons x rest)
  have "1 / (1 + (real s - 1) / 2) = 2 / (real s + 1)"
    by (simp add: field_simps)
  then show ?thesis
    using Cons by (simp add: ewm_mean_def spec_recursive_ewm_def Let_def ewm_loop_Num)
qed

lemma length_spec_ewm_from [simp]: "length (spec_ewm_from a p xs) = length xs"
  by (induction xs arbitrary: p) (simp_all add: Let_def)

lemma length_spec_recursive_ewm [simp]: "length (spec_recursive_ewm s xs) = length xs"
  by (cases xs) (simp_all add: spec_recursive_ewm_def)

lemma spec_ewm_from_nth:
  "i < length xs \<Longrightarrow>
   spec_ewm_from a p xs ! i =
     a * xs ! i + (1 - a) * (if i = 0 then p else spec_ewm_from a p xs ! (i - 1))"
proof (induction xs arbitrary: p i)
  case Nil
  then show ?case by simp
next
  case (Cons x xs)
  show ?case
  proof (cases i)
    case 0
    then show ?thesis by (simp add: Let_def)
  next
    case (Suc j)
    with Cons.prems have "j < length xs" by simp
    from Cons.IH [OF this] Suc show ?thesis
      by (cases j) (simp_all add: Let_def)
  qed
qed

lemma spec_recursive_ewm_0:
  "xs \<noteq> [] \<Longrightarrow> spec_recursive_ewm s xs ! 0 = xs ! 0"
  by (cases xs) (simp_all add: spec_recursive_ewm_def)

lemma spec_recursive_ewm_step:
  assumes "1 \<le> i" and "i < length xs"
  shows "spec_recursive_ewm s xs ! i =
           2 / (real s + 1) * xs ! i + (1 - 2 / (real s + 1)) * spec_recursive_ewm s xs ! (i - 1)"
proof (cases xs)
  case Nil
  with assms show ?thesis by simp
next
  case (Cons x rest)
  from assms obtain j where j: "i = Suc j" by (cases i) auto
  with assms Cons have "j < length rest" by simp
  from spec_ewm_from_nth [OF this, of "2 / (real s + 1)" x] Cons j show ?thesis
    by (cases j) (simp_all add: spec_recursive_ewm_def)
qed

lemma gain_Num_nth:
  "i < length xs \<Longrightarrow>
   gain (map Num xs) ! i = Num (if i = 0 then 0 else max (xs ! i - xs ! (i - 1)) 0)"
  by (simp add: gain_def delta_def series_where_def diff_Num_nth max_def)

lemma loss_Num_nth:
  "i < length xs \<Longrightarrow>
   loss (map Num xs) ! i = Num (if i = 0 then 0 else max (xs ! (i - 1) - xs ! i) 0)"
  by (simp add: loss_def delta_def series_where_def diff_Num_nth max_def)

section \<open>Properties of the indicator engine\<close>

lemma column_Num: "column f df = map Num (map f df)"
  by (simp add: column_def)

lemma length_column [simp]: "length (column f df) = length df"
  by (simp add: column_def)

lemma length_add_indicators [simp]: "length (add_indicators df) = length df"
  by (simp add: add_indicators_def Let_def)

lemma truncate_extend [simp]: "candle.truncate (candle.extend r ext) = r"
  by (simp add: candle.extend_def candle.truncate_def)

lemma candle_fields_extend [simp]:
  "time (candle.extend r ext) = time r"
  "low (candle.extend r ext) = low r"
  "high (candle.extend r ext) = high r"
  "open' (candle.extend r ext) = open' r"
  "close (candle.extend r ext) = close r"
  "volume (candle.extend r ext) = volume r"
  by (simp_all add: candle.extend_def)

lemma indicator_fields_extend [simp]:
  "SMA20 (candle.extend r (enriched.fields a b c d e)) = a"
  "EMA20 (candle.extend r (enriched.fields a b c d e)) = b"
  "RSI (candle.extend r (enriched.fields a b c d e)) = c"
  "MACD (candle.extend r (enriched.fields a b c d e)) = d"
  "Signal (candle.extend r (enriched.fields a b c d e)) = e"
  by (simp_all add: candle.extend_def enriched.fields_def)

lemma add_indicators_nth:
  "i < length df \<Longrightarrow>
   add_indicators df ! i =
     candle.extend (df ! i)
       (enriched.fields (rolling_mean 20 (column close df) ! i)
          (ewm_mean 20 (column close df) ! i) (rsi (column close df) ! i)
          (macd (column close df) ! i) (ewm_mean 9 (macd (column close df)) ! i))"
  by (simp add: add_indicators_def Let_def)

lemma map_add_indicators:
  assumes "\<And>r ext. f (candle.extend r ext) = g r"
  shows "map f (add_indicators df) = map g df"
  by (rule nth_equalityI) (simp_all add: add_indicators_nth assms)

lemma SMA20_nth:
  "i < length df \<Longrightarrow> SMA20 (add_indicators df ! i) = rolling_mean 20 (column close df) ! i"
  by (simp add: add_indicators_nth)

lemma EMA20_nth:
  "i < length df \<Longrightarrow> EMA20 (add_indicators df ! i) = ewm_mean 20 (column close df) ! i"
  by (simp add: add_indicators_nth)

lemma RSI_nth:
  "i < length df \<Longrightarrow> RSI (add_indicators df ! i) = rsi (column close df) ! i"
  by (simp add: add_indicators_nth)

lemma MACD_nth:
  "i < length df \<Longrightarrow> MACD (add_indicators df ! i) = macd (column close df) ! i"
  by (simp add: add_indicators_nth)

lemma Signal_nth:
  "i < length df \<Longrightarrow>
   Signal (add_indicators df ! i) = ewm_mean 9 (macd (column close df)) ! i"
  by (simp add: add_indicators_nth)

lemma macd_Num:
  "macd (map Num xs) =
     map Num (map2 (-) (spec_recursive_ewm 12 xs) (spec_recursive_ewm 26 xs))"
  by (rule nth_equalityI)
     (simp_all add: macd_def short_ema_def long_ema_def ewm_mean_Num minus_pyfloat_def)

section \<open>Properties of the example inputs\<close>

lemma length_candles_of [simp]: "length (candles_of ps) = length ps"
  by (simp add: candles_of_def)

lemma close_candles_of [simp]: "k < length ps \<Longrightarrow> close (candles_of ps ! k) = ps ! k"
  by (simp add: candles_of_def flat_candle_def)

lemma column_close_candles_of [simp]: "column close (candles_of ps) = map Num ps"
  by (rule nth_equalityI) (simp_all add: column_def)

section \<open>Properties of the RSI series\<close>

lemma length_delta [simp]: "length (delta c) = length c"
  by (simp add: delta_def)

lemma length_gain [simp]: "length (gain c) = length c"
  by (simp add: gain_def)

lemma length_loss [simp]: "length (loss c) = length c"
  by (simp add: loss_def)

lemma length_avg_gain [simp]: "length (avg_gain c) = length c"
  by (simp add: avg_gain_def)

lemma length_avg_loss [simp]: "length (avg_loss c) = length c"
  by (simp add: avg_loss_def)

lemma length_rs [simp]: "length (rs c) = length c"
  by (simp add: rs_def)

lemma length_rsi [simp]: "length (rsi c) = length c"
  by (simp add: rsi_def)

lemma rs_nth: "i < length c \<Longrightarrow> rs c ! i = avg_gain c ! i / avg_loss c ! i"
  by (simp add: rs_def)

lemma rsi_nth: "i < length c \<Longrightarrow> rsi c ! i = Num 100 - Num 100 / (Num 1 + rs c ! i)"
  by (simp add: rsi_def)

lemma gain_Num:
  "gain (map Num xs) =
     map Num (map (\<lambda>i. if i = 0 then 0 else max (xs ! i - xs ! (i - 1)) 0) [0..<length xs])"
  by (rule nth_equalityI) (simp_all add: gain_Num_nth)

lemma loss_Num:
  "loss (map Num xs) =
     map Num (map (\<lambda>i. if i = 0 then 0 else max (xs ! (i - 1) - xs ! i) 0) [0..<length xs])"
  by (rule nth_equalityI) (simp_all add: loss_Num_nth)

lemma sum_list_window_nonneg:
  assumes "\<forall>x \<in> set xs. (0::real) \<le> x"
  shows "0 \<le> sum_list (drop a (take b xs))"
proof (rule sum_list_nonneg)
  fix x
  assume "x \<in> set (drop a (take b xs))"
  then have "x \<in> set xs"
    by (meson in_set_dropD in_set_takeD)
  with assms show "0 \<le> x" by simp
qed

lemma rolling_mean_14_nonneg:
  assumes "i < length xs" and "\<forall>x \<in> set xs. (0::real) \<le> x"
  shows "if i < 13 then rolling_mean 14 (map Num xs) ! i = NaN
         else \<exists>m. 0 \<le> m \<and> rolling_mean 14 (map Num xs) ! i = Num m"
proof (cases "i < 13")
  case True
  then show ?thesis
    using assms(1) rolling_mean_Num_nth [of i xs 14] by simp
next
  case False
  let ?m = "sum_list (drop (Suc i - 14) (take (Suc i) xs)) / 14"
  have "0 \<le> ?m"
    using sum_list_window_nonneg [OF assms(2), of "Suc i - 14" "Suc i"] by simp
  moreover have "rolling_mean 14 (map Num xs) ! i = Num ?m"
    using False assms(1) rolling_mean_Num_nth [of i xs 14] by simp
  ultimately have "\<exists>m. 0 \<le> m \<and> rolling_mean 14 (map Num xs) ! i = Num m"
    by (intro exI [of _ ?m] conjI)
  with False show ?thesis
    by (simp only: if_False)
qed

lemma avg_gain_cases:
  assumes "i < length xs"
  shows "if i < 13 then avg_gain (map Num xs) ! i = NaN
         else \<exists>g. 0 \<le> g \<and> avg_gain (map Num xs) ! i = Num g"
  unfolding avg_gain_def gain_Num
  by (rule rolling_mean_14_nonneg) (use assms in auto)

lemma avg_loss_cases:
  assumes "i < length xs"
  shows "if i < 13 then avg_loss (map Num xs) ! i = NaN
         else \<exists>l. 0 \<le> l \<and> avg_loss (map Num xs) ! i = Num l"
  unfolding avg_loss_def loss_Num
  by (rule rolling_mean_14_nonneg) (use assms in auto)

lemma rsi_bounds:
  assumes "0 \<le> g" and "0 < l"
  shows "\<exists>r. Num 100 - Num 100 / (Num 1 + Num g / Num l) = Num r \<and> 0 \<le> r \<and> r \<le> 100"
proof -
  have pos: "0 < 1 + g / l"
    using assms by (simp add: add_pos_nonneg)
  then have "Num 100 - Num 100 / (Num 1 + Num g / Num l) = Num (100 - 100 / (1 + g / l))"
    using assms by (simp add: minus_pyfloat_def)
  moreover have "100 / (1 + g / l) \<le> 100"
    using assms pos by (simp add: field_simps)
  moreover have "0 \<le> 100 / (1 + g / l)"
    using pos by simp
  ultimately show ?thesis by simp
qed

lemmas rsi_defs = avg_loss_def avg_gain_def loss_def gain_def delta_def diff_def
  series_where_def rolling_mean_def window_def minus_pyfloat_def

lemma avg_falling:
  "avg_gain (map Num falling) ! 13 = Num 0" "avg_loss (map Num falling) ! 13 = Num (13 / 14)"
  by (simp_all add: rsi_defs falling_def)



lemma length_examples [simp]:
  "length falling = 14" "length rising = 14" "length steady = 14"
  by (simp_all add: falling_def rising_def steady_def)

section \<open>Properties of the example world\<close>

lemma example_fetch:
  "get_coinbase_candles (example_world status outcome) s g l = Inr [example_candle]"
  by (simp add: get_coinbase_candles_def example_world_def example_response_def
      response_json_def DataFrame_def row_of_def example_candle_def)

lemma example_analyze:
  "analyze_with_chatgpt (example_world status outcome) df p =
     (Inr (Some ''ok''),
      [\<lparr>model = ''gpt-5'', messages = [\<lparr>role = ''system'', content = p\<rparr>,
          \<lparr>role = ''user'', content = user_label\<rparr>]\<rparr>])"
  by (simp add: analyze_with_chatgpt_def example_world_def OpenAI_def API_KEY_def Let_def
      gpt_version_def)

lemma example_main:
  "fst (main (example_world status outcome) s g l) =
     Inr (''ok'' @ newline @ lines @ newline @ '' End analysis at '' @ ''2025-01-01 00:00:00'')"
  by (simp add: main_def example_fetch example_analyze str_opt_def)
    (simp add: example_world_def)

lemma example_files [simp]:
  "open_fails (example_world status outcome) = False"
  "write_result (example_world status outcome) = outcome"
  by (simp_all add: example_world_def)

section \<open>Properties of the run\<close>

lemma main_fetch_error:
  "get_coinbase_candles w s g l = Inl e \<Longrightarrow> main w s g l = (Inl e, [])"
  by (simp add: main_def)

lemma main_chat_error:
  assumes "get_coinbase_candles w s g l = Inr candles"
    and "fst (analyze_with_chatgpt w (add_indicators candles) PROMPT) = Inl e"
  shows "fst (main w s g l) = Inl e"
  using assms
  by (cases "analyze_with_chatgpt w (add_indicators candles) PROMPT")
    (auto simp add: main_def Let_def split: sum.splits)

lemma run_main_error:
  "fst (main w symbol granularity limit) = Inl e \<Longrightarrow> run w f = (Inl e, f)"
  by (simp add: run_def)

lemma run_open_error:
  "fst (main w symbol granularity limit) = Inr a \<Longrightarrow> open_fails w \<Longrightarrow> run w f = (Inl OSError, f)"
  by (simp add: run_def Let_def)

lemma run_interrupted:
  assumes "fst (main w symbol granularity limit) = Inr a" and "\<not> open_fails w"
    and "write_result w = Interrupted k"
  shows "run w f = (Inl OSError, Some (take k (page a)))"
  using assms by (simp add: run_def Let_def)

lemma run_written:
  assumes "fst (main w symbol granularity limit) = Inr a" and "\<not> open_fails w"
    and "write_result w = Written"
  shows "run w f = (Inr (), Some (page a))"
  using assms by (simp add: run_def Let_def)




section \<open>The claims\<close>

text \<open>
  C1, as the program has it.  The first delta is NaN, but both \<^verbatim>\<open>where\<close> masks replace
  it with zero, so row 0 enters the averages as an observation without gain or loss.
  The RSI cell of row \<open>i\<close> is therefore NaN for \<open>i < 13\<close>, and for \<open>i \<ge> 13\<close> with a
  positive average loss it is a number between 0 and 100.  All series keep the length
  of the frame, so cell \<open>i\<close> belongs to candle \<open>i\<close>.
\<close>

theorem rsi_defined_from_13:
  assumes "i < length df"
  shows "(i < 13 \<longrightarrow> RSI (add_indicators df ! i) = NaN)
         \<and> (\<forall>l. 13 \<le> i \<and> avg_loss (column close df) ! i = Num l \<and> 0 < l \<longrightarrow>
               (\<exists>r. RSI (add_indicators df ! i) = Num r \<and> 0 \<le> r \<and> r \<le> 100))
         \<and> delta (column close df) ! 0 = NaN
         \<and> gain (column close df) ! 0 = Num 0
         \<and> loss (column close df) ! 0 = Num 0
         \<and> length (rsi (column close df)) = length df"
proof -
  let ?c = "column close df"
  have c: "?c = map Num (map close df)"
    by (rule column_Num)
  have i: "i < length (map close df)" and pos: "0 < length (map close df)"
    using assms by auto
  have cell: "RSI (add_indicators df ! i) = Num 100 - Num 100 / (Num 1 + avg_gain ?c ! i / avg_loss ?c ! i)"
    using assms by (simp add: RSI_nth rsi_nth rs_nth)
  have early: "RSI (add_indicators df ! i) = NaN" if "i < 13"
    using that avg_gain_cases [OF i] unfolding cell c by (simp add: minus_pyfloat_def)
  have late: "\<exists>r. RSI (add_indicators df ! i) = Num r \<and> 0 \<le> r \<and> r \<le> 100"
    if "13 \<le> i" and "avg_loss ?c ! i = Num l" and "0 < l" for l
  proof -
    from that(1) avg_gain_cases [OF i] obtain g where "0 \<le> g" and "avg_gain ?c ! i = Num g"
      unfolding c by auto
    with that show ?thesis
      unfolding cell using rsi_bounds [of g l] by simp
  qed
  have first: "delta ?c ! 0 = NaN" "gain ?c ! 0 = Num 0" "loss ?c ! 0 = Num 0"
    unfolding c using pos gain_Num_nth [OF pos] loss_Num_nth [OF pos] diff_Num_nth [OF pos]
    by (simp_all add: delta_def)
  show ?thesis
    using early late first by auto
qed

theorem rsi_defined_from_13_witness:
  "RSI (add_indicators (candles_of falling) ! 5) = NaN
   \<and> (\<exists>r. RSI (add_indicators (candles_of falling) ! 13) = Num r \<and> 0 \<le> r \<and> r \<le> 100)
   \<and> gain (column close (candles_of falling)) ! 0 = Num 0"
proof -
  have early: "RSI (add_indicators (candles_of falling) ! 5) = NaN"
    and first: "gain (column close (candles_of falling)) ! 0 = Num 0"
    using rsi_defined_from_13 [of 5 "candles_of falling"] by simp_all
  have "\<forall>l. 13 \<le> (13::nat) \<and> avg_loss (column close (candles_of falling)) ! 13 = Num l \<and> 0 < l
      \<longrightarrow> (\<exists>r. RSI (add_indicators (candles_of falling) ! 13) = Num r \<and> 0 \<le> r \<and> r \<le> 100)"
    using rsi_defined_from_13 [of 13 "candles_of falling"] by simp
  then have "\<exists>r. RSI (add_indicators (candles_of falling) ! 13) = Num r \<and> 0 \<le> r \<and> r \<le> 100"
    using avg_falling(2) by (elim allE [of _ "13 / 14"]) simp
  with early first show ?thesis by simp
qed

theorem rsi_undefined_below_14_counterexample:
  "(13::nat) < 14
   \<and> RSI (add_indicators (candles_of falling) ! 13) = Num 0
   \<and> gain (column close (candles_of falling)) ! 0 = Num 0
   \<and> loss (column close (candles_of falling)) ! 0 = Num 0"
  by (simp add: RSI_nth rsi_nth rs_nth avg_falling minus_pyfloat_def gain_Num_nth loss_Num_nth)

text \<open>
  C2.  The output of \<^verbatim>\<open>add_indicators\<close> has as many rows as its input, in the input's
  order, and every row keeps its time, low, high, open, close and volume: each output
  row is the input row with the indicator fields appended.
\<close>

theorem add_indicators_keeps_candles:
  "length (add_indicators df) = length df
   \<and> map candle.truncate (add_indicators df) = df
   \<and> map time (add_indicators df) = map time df
   \<and> map low (add_indicators df) = map low df
   \<and> map high (add_indicators df) = map high df
   \<and> map open' (add_indicators df) = map open' df
   \<and> map close (add_indicators df) = map close df
   \<and> map volume (add_indicators df) = map volume df"
  using map_add_indicators [of candle.truncate "\<lambda>r. r" df, OF truncate_extend]
    map_add_indicators [of time time df, OF candle_fields_extend(1)]
    map_add_indicators [of low low df, OF candle_fields_extend(2)]
    map_add_indicators [of high high df, OF candle_fields_extend(3)]
    map_add_indicators [of open' open' df, OF candle_fields_extend(4)]
    map_add_indicators [of close close df, OF candle_fields_extend(5)]
    map_add_indicators [of volume volume df, OF candle_fields_extend(6)]
  by simp

text \<open>
  C3.  The SMA20 cell of row \<open>i\<close> is defined exactly when \<open>i \<ge> 19\<close>, and is then the
  arithmetic mean of the closes of rows \<open>i - 19\<close> to \<open>i\<close>.
\<close>

theorem sma20_defined_iff_mean:
  assumes "i < length df"
  shows "(SMA20 (add_indicators df ! i) \<noteq> NaN \<longleftrightarrow> 19 \<le> i)
         \<and> (19 \<le> i \<longrightarrow>
              SMA20 (add_indicators df ! i) = Num ((\<Sum>k = i - 19..i. close (df ! k)) / 20))"
proof -
  have cell: "SMA20 (add_indicators df ! i) =
      (if 19 \<le> i then Num (sum_list (drop (i - 19) (take (Suc i) (map close df))) / 20)
       else NaN)"
    using assms rolling_mean_Num_nth [of i "map close df" 20]
    by (simp add: SMA20_nth column_Num)
  have "sum_list (drop (i - 19) (take (Suc i) (map close df))) =
      (\<Sum>k = i - 19..<Suc i. map close df ! k)"
    using assms by (intro sum_list_window) simp
  also have "\<dots> = (\<Sum>k = i - 19..i. close (df ! k))"
    using assms by (intro sum.cong) (auto simp add: atLeastLessThanSuc_atLeastAtMost)
  finally show ?thesis
    using cell by simp
qed

theorem sma20_defined_iff_mean_witness:
  "SMA20 (add_indicators (candles_of (replicate 20 5)) ! 19) = Num 5
   \<and> SMA20 (add_indicators (candles_of (replicate 20 5)) ! 3) = NaN"
  using sma20_defined_iff_mean [of 19 "candles_of (replicate 20 5)"]
    sma20_defined_iff_mean [of 3 "candles_of (replicate 20 5)"]
  by simp

text \<open>
  C4.  The EMA20 cell of the first row is its close, and the cell of every later row
  \<open>i\<close> is \<open>2/21 * close[i] + 19/21 * EMA20[i - 1]\<close>: the column is defined from the first
  candle on.
\<close>

theorem ema20_recursive:
  assumes "i < length df"
  shows "(i = 0 \<longrightarrow> EMA20 (add_indicators df ! i) = Num (close (df ! i)))
         \<and> (1 \<le> i \<longrightarrow>
              (\<exists>prev. EMA20 (add_indicators df ! (i - 1)) = Num prev
                 \<and> EMA20 (add_indicators df ! i)
                     = Num (2 / 21 * close (df ! i) + 19 / 21 * prev)))"
proof -
  have col: "EMA20 (add_indicators df ! k) = Num (spec_recursive_ewm 20 (map close df) ! k)"
    if "k < length df" for k
    using that unfolding EMA20_nth [OF that] column_Num ewm_mean_Num by simp
  have first: "EMA20 (add_indicators df ! i) = Num (close (df ! i))" if "i = 0"
    using that assms col [of 0] spec_recursive_ewm_0 [of "map close df" 20] by auto
  have later: "EMA20 (add_indicators df ! i)
      = Num (2 / 21 * close (df ! i) + 19 / 21 * spec_recursive_ewm 20 (map close df) ! (i - 1))"
    if "1 \<le> i"
    using that assms col [of i] spec_recursive_ewm_step [of i "map close df" 20] by simp
  show ?thesis
    using first later col [of "i - 1"] assms by auto
qed

theorem ema20_recursive_witness:
  "EMA20 (add_indicators (candles_of [10, 11]) ! 0) = Num 10
   \<and> EMA20 (add_indicators (candles_of [10, 11]) ! 1) = Num (2 / 21 * 11 + 19 / 21 * 10)"
  using ema20_recursive [of 0 "candles_of [10, 11]"] ema20_recursive [of 1 "candles_of [10, 11]"]
  by auto

text \<open>
  C5.  The MACD cell of every row is the difference of the recursive averages of the
  closes with spans 12 and 26, each seeded with the first close; the Signal column is
  the recursive average with span 9 of the MACD column, and starts at the first MACD
  cell.
\<close>

theorem macd_signal_recursive:
  assumes "i < length df"
  shows "(let ema12 = spec_recursive_ewm 12 (map close df);
              ema26 = spec_recursive_ewm 26 (map close df);
              macd_series = map2 (-) ema12 ema26
          in MACD (add_indicators df ! i) = Num (ema12 ! i - ema26 ! i)
             \<and> map MACD (add_indicators df) = map Num macd_series
             \<and> Signal (add_indicators df ! i) = Num (spec_recursive_ewm 9 macd_series ! i)
             \<and> Signal (add_indicators df ! 0) = MACD (add_indicators df ! 0))"
proof -
  define m where "m = map2 (-) (spec_recursive_ewm 12 (map close df))
    (spec_recursive_ewm 26 (map close df))"
  have len: "length m = length df"
    by (simp add: m_def)
  have col: "macd (column close df) = map Num m"
    unfolding column_Num macd_Num m_def by (rule refl)
  have cell: "MACD (add_indicators df ! k) = Num (m ! k)" if "k < length df" for k
    using that len by (simp add: MACD_nth col)
  have series: "map MACD (add_indicators df) = map Num m"
    by (rule nth_equalityI) (simp_all add: len cell)
  have signal: "Signal (add_indicators df ! k) = Num (spec_recursive_ewm 9 m ! k)"
    if "k < length df" for k
    using that len unfolding Signal_nth [OF that] col ewm_mean_Num by simp
  have "0 < length df" and "m \<noteq> []"
    using assms len by auto
  then have first: "Signal (add_indicators df ! 0) = MACD (add_indicators df ! 0)"
    using signal [of 0] cell [of 0] by (simp add: spec_recursive_ewm_0)
  have "m ! i = spec_recursive_ewm 12 (map close df) ! i - spec_recursive_ewm 26 (map close df) ! i"
    using assms by (simp add: m_def)
  then show ?thesis
    using cell [OF assms] series signal [OF assms] first
    by (simp add: Let_def m_def)
qed

theorem macd_signal_recursive_witness:
  "MACD (add_indicators (candles_of [10, 11]) ! 1) = Num (28 / 351)
   \<and> Signal (add_indicators (candles_of [10, 11]) ! 1) = Num (28 / 1755)
   \<and> Signal (add_indicators (candles_of [10, 11]) ! 0) = MACD (add_indicators (candles_of [10, 11]) ! 0)"
  using macd_signal_recursive [of 1 "candles_of [10, 11]"]
  by (simp add: Let_def spec_recursive_ewm_def candles_of_def flat_candle_def)



text \<open>
  C7, as the program has it.  A failure of the fetch or of the chat completion, or a
  failure to open index.html, ends the run with the file as it was; the file is opened
  only after \<^verbatim>\<open>main\<close> has returned, and a run that completes leaves the page in it.
  The write itself is not guarded: when it is interrupted after the open, the file
  holds what was written until then, and the text it had before is gone.
\<close>

theorem run_untouched_before_open:
  "(\<forall>e. get_coinbase_candles w symbol granularity limit = Inl e \<longrightarrow> run w f = (Inl e, f))
   \<and> (\<forall>candles e. get_coinbase_candles w symbol granularity limit = Inr candles
          \<and> fst (analyze_with_chatgpt w (add_indicators candles) PROMPT) = Inl e
          \<longrightarrow> run w f = (Inl e, f))
   \<and> (open_fails w \<longrightarrow> (\<exists>e. run w f = (Inl e, f)))
   \<and> (\<forall>a. fst (main w symbol granularity limit) = Inr a \<and> \<not> open_fails w
          \<and> write_result w = Written
          \<longrightarrow> run w f = (Inr (), Some (page a)))
   \<and> (\<forall>a k. fst (main w symbol granularity limit) = Inr a \<and> \<not> open_fails w
          \<and> write_result w = Interrupted k
          \<longrightarrow> run w f = (Inl OSError, Some (take k (page a))))"
proof -
  have fetch: "run w f = (Inl e, f)"
    if "get_coinbase_candles w symbol granularity limit = Inl e" for e
    using that by (simp add: run_main_error main_fetch_error)
  have chat: "run w f = (Inl e, f)"
    if "get_coinbase_candles w symbol granularity limit = Inr candles"
      and "fst (analyze_with_chatgpt w (add_indicators candles) PROMPT) = Inl e" for candles e
    using main_chat_error [OF that] by (rule run_main_error)
  have opened: "\<exists>e. run w f = (Inl e, f)" if "open_fails w"
  proof (cases "fst (main w symbol granularity limit)")
    case (Inl e)
    then show ?thesis by (simp add: run_main_error)
  next
    case (Inr a)
    then show ?thesis using that by (simp add: run_open_error)
  qed
  show ?thesis
    using fetch chat opened run_written run_interrupted by blast
qed

theorem run_untouched_before_open_witness:
  "run ((example_world 200 Written)\<lparr>requests_get := (\<lambda>_. Inl ConnectionError)\<rparr>) (Some ''old'')
     = (Inl ConnectionError, Some ''old'')
   \<and> run ((example_world 200 Written)\<lparr>open_fails := True\<rparr>) (Some ''old'')
     = (Inl OSError, Some ''old'')
   \<and> snd (run (example_world 200 Written) (Some ''old''))
     = Some (page (''ok'' @ newline @ lines @ newline @ '' End analysis at ''
          @ ''2025-01-01 00:00:00''))"
proof -
  let ?down = "(example_world 200 Written)\<lparr>requests_get := (\<lambda>_. Inl ConnectionError)\<rparr>"
  let ?locked = "(example_world 200 Written)\<lparr>open_fails := True\<rparr>"
  have "get_coinbase_candles ?down symbol granularity limit = Inl ConnectionError"
    by (simp add: get_coinbase_candles_def)
  then have down: "run ?down (Some ''old'') = (Inl ConnectionError, Some ''old'')"
    using run_untouched_before_open [of ?down "Some ''old''"] by simp
  have "fst (main ?locked symbol granularity limit) \<noteq> Inl e" for e
    by (simp add: main_def get_coinbase_candles_def analyze_with_chatgpt_def example_world_def
        example_response_def response_json_def DataFrame_def row_of_def OpenAI_def
        API_KEY_def Let_def)
  then have "run ?locked (Some ''old'') \<noteq> (Inl e, Some ''old'')" if "e \<noteq> OSError" for e
    using that by (cases "fst (main ?locked symbol granularity limit)") (simp_all add: run_def Let_def)
  moreover have "\<exists>e. run ?locked (Some ''old'') = (Inl e, Some ''old'')"
    using run_untouched_before_open [of ?locked "Some ''old''"] by simp
  ultimately have locked: "run ?locked (Some ''old'') = (Inl OSError, Some ''old'')"
    by metis
  have completed: "snd (run (example_world 200 Written) (Some ''old''))
      = Some (page (''ok'' @ newline @ lines @ newline @ '' End analysis at ''
          @ ''2025-01-01 00:00:00''))"
    using run_untouched_before_open [of "example_world 200 Written" "Some ''old''"]
      example_main [of 200 Written symbol granularity limit]
    by simp
  from down locked completed show ?thesis by simp
qed

theorem run_interrupted_write_counterexample:
  "write_result (example_world 200 (Interrupted 0)) = Interrupted 0
   \<and> run (example_world 200 (Interrupted 0)) (Some ''old'') = (Inl OSError, Some [])"
  using run_interrupted [OF example_main, of 200 "Interrupted 0" 0 "Some ''old''"]
  by simp






text \<open>
  C10.  The two copies of \<^verbatim>\<open>add_indicators\<close>, in main.py and in
  resistance_support.py, give the same enriched frame for every input.
\<close>

theorem add_indicators_copies_equal: "add_indicators_rs df = add_indicators df"
  by (simp add: add_indicators_rs_def add_indicators_def rsi_def rs_def avg_gain_def
      avg_loss_def gain_def loss_def delta_def macd_def short_ema_def long_ema_def Let_def)

end
